theory Spec2Isabelle
  imports Main "HOL-Library.Word"
begin

unbundle bit_operations_syntax

section \<open>Data types of PCA9534.h\<close>

text \<open>
  \<^verbatim>\<open>uint8_t\<close> is an 8-bit word. \<^verbatim>\<open>int8_t\<close>, the return type of the platform functions, is
  an 8-bit word read with \<open>sint\<close>. C computes \<^verbatim>\<open>~\<close>, \<^verbatim>\<open><<\<close>, \<^verbatim>\<open>&\<close> and \<^verbatim>\<open>|\<close> on operands promoted
  to \<^verbatim>\<open>int\<close>, taken here as 32 bits wide, and truncates the result when it is stored in a
  \<^verbatim>\<open>uint8_t\<close>; the definitions below write the promotion (\<open>ucast\<close> to \<open>cint\<close>) and the
  truncation (\<open>ucast\<close> back) out.
\<close>

type_synonym uint8_t = "8 word"
type_synonym int8_t = "8 word"
type_synonym cint = "32 word"

datatype PCA9534_Result_t = PCA9534_OK | PCA9534_FAIL | PCA9534_INVALID_PARAM

text \<open>
  \<^verbatim>\<open>PCA9534_Device_t\<close> is a C enum: an object of that type can hold any integer, and the
  driver tests for the values outside the two enumerators (\<^verbatim>\<open>Device != ... && Device != ...\<close>,
  \<^verbatim>\<open>default:\<close>). So the tag is an integer with two named values.
\<close>

type_synonym PCA9534_Device_t = int

definition PCA9534_DEVICE_PCA9534 :: PCA9534_Device_t where
  "PCA9534_DEVICE_PCA9534 = 0"

definition PCA9534_DEVICE_PCA9534A :: PCA9534_Device_t where
  "PCA9534_DEVICE_PCA9534A = 1"

text \<open>
  The platform layer is four function pointers, each of which may be null (\<open>None\<close>). A
  platform function runs on the state \<open>'w\<close> of everything outside the driver (the bus, the
  chip) and returns its \<^verbatim>\<open>int8_t\<close> status with the new outside state. \<^verbatim>\<open>Send\<close> gets the slave
  address, the bytes of the buffer and the length; \<^verbatim>\<open>Receive\<close> gets the slave address, the
  bytes the buffer holds before the call and the length, and also returns the bytes the
  buffer holds after the call. The handler itself is not part of \<open>'w\<close>: a platform
  function cannot write to the handler it is called through.
\<close>

record 'w PCA9534_Platform_t =
  Init :: "('w \<Rightarrow> int8_t \<times> 'w) option"
  DeInit :: "('w \<Rightarrow> int8_t \<times> 'w) option"
  Send :: "(uint8_t \<Rightarrow> uint8_t list \<Rightarrow> uint8_t \<Rightarrow> 'w \<Rightarrow> int8_t \<times> 'w) option"
  Receive :: "(uint8_t \<Rightarrow> uint8_t list \<Rightarrow> uint8_t \<Rightarrow> 'w \<Rightarrow> int8_t \<times> uint8_t list \<times> 'w) option"

record 'w PCA9534_Handler_t =
  Device :: PCA9534_Device_t
  AddressI2C :: uint8_t
  Platform :: "'w PCA9534_Platform_t"

section \<open>Private constants of PCA9534.c\<close>

definition PCA9534_I2C_ADDRESS_BASE :: cint where
  "PCA9534_I2C_ADDRESS_BASE = 0x20"

definition PCA9534A_I2C_ADDRESS_BASE :: cint where
  "PCA9534A_I2C_ADDRESS_BASE = 0x38"

definition PCA9534_REG_INPUT_PORT :: uint8_t where
  "PCA9534_REG_INPUT_PORT = 0x00"

definition PCA9534_REG_OUTPUT_PORT :: uint8_t where
  "PCA9534_REG_OUTPUT_PORT = 0x01"

definition PCA9534_REG_POLARITY_INVERT :: uint8_t where
  "PCA9534_REG_POLARITY_INVERT = 0x02"

definition PCA9534_REG_CONFIGURATION :: uint8_t where
  "PCA9534_REG_CONFIGURATION = 0x03"

section \<open>Calls through the platform layer\<close>

text \<open>
  Every call the driver makes through a platform function pointer is recorded, in order,
  with its arguments and what it returned. The state a driver function runs on is the
  outside state together with that record of calls.
\<close>

datatype call =
    Call_Init int8_t
  | Call_DeInit int8_t
  | Call_Send uint8_t "uint8_t list" uint8_t int8_t
  | Call_Receive uint8_t uint8_t "uint8_t list" int8_t

record 'w bus =
  world :: 'w
  calls :: "call list"

text \<open>
  A call through a null function pointer is undefined behaviour: the driver function has
  no result there (\<open>None\<close>).
\<close>

definition Platform_Init :: "'w PCA9534_Handler_t \<Rightarrow> 'w bus \<Rightarrow> (int8_t \<times> 'w bus) option" where
  "Platform_Init Handler s =
     (case Init (Platform Handler) of
        None \<Rightarrow> None
      | Some f \<Rightarrow>
          (case f (world s) of
             (r, w) \<Rightarrow> Some (r, \<lparr>world = w, calls = calls s @ [Call_Init r]\<rparr>)))"

definition Platform_DeInit :: "'w PCA9534_Handler_t \<Rightarrow> 'w bus \<Rightarrow> (int8_t \<times> 'w bus) option" where
  "Platform_DeInit Handler s =
     (case DeInit (Platform Handler) of
        None \<Rightarrow> None
      | Some f \<Rightarrow>
          (case f (world s) of
             (r, w) \<Rightarrow> Some (r, \<lparr>world = w, calls = calls s @ [Call_DeInit r]\<rparr>)))"

definition Platform_Send ::
  "'w PCA9534_Handler_t \<Rightarrow> uint8_t list \<Rightarrow> uint8_t \<Rightarrow> 'w bus \<Rightarrow> (int8_t \<times> 'w bus) option" where
  "Platform_Send Handler Data Len s =
     (case Send (Platform Handler) of
        None \<Rightarrow> None
      | Some f \<Rightarrow>
          (case f (AddressI2C Handler) Data Len (world s) of
             (r, w) \<Rightarrow>
               Some (r, \<lparr>world = w,
                         calls = calls s @ [Call_Send (AddressI2C Handler) Data Len r]\<rparr>)))"

definition Platform_Receive ::
  "'w PCA9534_Handler_t \<Rightarrow> uint8_t list \<Rightarrow> uint8_t \<Rightarrow> 'w bus
     \<Rightarrow> (int8_t \<times> uint8_t list \<times> 'w bus) option" where
  "Platform_Receive Handler Data Len s =
     (case Receive (Platform Handler) of
        None \<Rightarrow> None
      | Some f \<Rightarrow>
          (case f (AddressI2C Handler) Data Len (world s) of
             (r, d, w) \<Rightarrow>
               Some (r, d, \<lparr>world = w,
                            calls = calls s @ [Call_Receive (AddressI2C Handler) Len d r]\<rparr>)))"

section \<open>Private functions\<close>

text \<open>
  \<^verbatim>\<open>PCA9534_WriteReg\<close>: one send of the two bytes \<^verbatim>\<open>{Address, Data}\<close>.
\<close>

definition PCA9534_WriteReg ::
  "'w PCA9534_Handler_t \<Rightarrow> uint8_t \<Rightarrow> uint8_t \<Rightarrow> 'w bus \<Rightarrow> (PCA9534_Result_t \<times> 'w bus) option" where
  "PCA9534_WriteReg Handler Address Data s =
     (case Platform_Send Handler [Address, Data] 2 s of
        None \<Rightarrow> None
      | Some (r, s1) \<Rightarrow>
          if sint r < 0 then Some (PCA9534_FAIL, s1)
          else Some (PCA9534_OK, s1))"

text \<open>
  \<^verbatim>\<open>PCA9534_ReadReg\<close>: one send of the register address, then one receive of one byte into
  \<^verbatim>\<open>*Data\<close>. The argument \<open>Data\<close> is the byte \<^verbatim>\<open>*Data\<close> holds before the call, the second
  component of the result the byte it holds after the call: the first byte of the buffer
  as \<^verbatim>\<open>Receive\<close> left it, also when \<^verbatim>\<open>Receive\<close> reports a failure.
\<close>

definition PCA9534_ReadReg ::
  "'w PCA9534_Handler_t \<Rightarrow> uint8_t \<Rightarrow> uint8_t \<Rightarrow> 'w bus
     \<Rightarrow> (PCA9534_Result_t \<times> uint8_t \<times> 'w bus) option" where
  "PCA9534_ReadReg Handler Address Data s =
     (case Platform_Send Handler [Address] 1 s of
        None \<Rightarrow> None
      | Some (r, s1) \<Rightarrow>
          if sint r < 0 then Some (PCA9534_FAIL, Data, s1)
          else
            (case Platform_Receive Handler [Data] 1 s1 of
               None \<Rightarrow> None
             | Some (r2, d, s2) \<Rightarrow>
                 (let Data2 = (case d of [] \<Rightarrow> Data | b # bs \<Rightarrow> b) in
                  if sint r2 < 0 then Some (PCA9534_FAIL, Data2, s2)
                  else Some (PCA9534_OK, Data2, s2))))"

section \<open>Public functions\<close>

text \<open>
  Every public function takes the handler and the state and returns its result, the
  handler as the call leaves it, and the state. \<^verbatim>\<open>PCA9534_Init\<close> and \<^verbatim>\<open>PCA9534_DeInit\<close> test
  the handler pointer, so they take an optional handler (\<open>None\<close> is the null pointer); the
  other functions dereference it untested and take a handler.
\<close>

definition PCA9534_SetAddressI2C ::
  "'w PCA9534_Handler_t \<Rightarrow> uint8_t \<Rightarrow> 'w bus
     \<Rightarrow> PCA9534_Result_t \<times> 'w PCA9534_Handler_t \<times> 'w bus" where
  "PCA9534_SetAddressI2C Handler Address s =
     (if Address > 7 then (PCA9534_INVALID_PARAM, Handler, s)
      else if Device Handler = PCA9534_DEVICE_PCA9534 then
        (PCA9534_OK,
         Handler\<lparr>AddressI2C := ucast (PCA9534_I2C_ADDRESS_BASE OR (ucast Address :: cint))\<rparr>, s)
      else if Device Handler = PCA9534_DEVICE_PCA9534A then
        (PCA9534_OK,
         Handler\<lparr>AddressI2C := ucast (PCA9534A_I2C_ADDRESS_BASE OR (ucast Address :: cint))\<rparr>, s)
      else (PCA9534_INVALID_PARAM, Handler, s))"

definition PCA9534_Init ::
  "'w PCA9534_Handler_t option \<Rightarrow> PCA9534_Device_t \<Rightarrow> uint8_t \<Rightarrow> 'w bus
     \<Rightarrow> (PCA9534_Result_t \<times> 'w PCA9534_Handler_t option \<times> 'w bus) option" where
  "PCA9534_Init Handler Device_arg Address s =
     (case Handler of
        None \<Rightarrow> Some (PCA9534_INVALID_PARAM, None, s)
      | Some H0 \<Rightarrow>
          if Device_arg \<noteq> PCA9534_DEVICE_PCA9534 \<and> Device_arg \<noteq> PCA9534_DEVICE_PCA9534A
          then Some (PCA9534_INVALID_PARAM, Some H0, s)
          else
            (case PCA9534_SetAddressI2C (H0\<lparr>Device := Device_arg\<rparr>) Address s of
               (ra, H, sa) \<Rightarrow>
                 if ra \<noteq> PCA9534_OK then Some (PCA9534_INVALID_PARAM, Some H, sa)
                 else if Send (Platform H) = None \<or> Receive (Platform H) = None
                 then Some (PCA9534_INVALID_PARAM, Some H, sa)
                 else
                   (case (if Init (Platform H) \<noteq> None then Platform_Init H sa
                          else Some (0, sa)) of
                      None \<Rightarrow> None
                    | Some (ri, s0) \<Rightarrow>
                        if Init (Platform H) \<noteq> None \<and> sint ri < 0
                        then Some (PCA9534_FAIL, Some H, s0)
                        else
                          (case PCA9534_WriteReg H PCA9534_REG_OUTPUT_PORT 0xFF s0 of
                             None \<Rightarrow> None
                           | Some (r1, s1) \<Rightarrow>
                               if r1 \<noteq> PCA9534_OK then Some (PCA9534_FAIL, Some H, s1)
                               else
                                 (case PCA9534_WriteReg H PCA9534_REG_POLARITY_INVERT 0x00 s1 of
                                    None \<Rightarrow> None
                                  | Some (r2, s2) \<Rightarrow>
                                      if r2 \<noteq> PCA9534_OK then Some (PCA9534_FAIL, Some H, s2)
                                      else
                                        (case PCA9534_WriteReg H PCA9534_REG_CONFIGURATION 0xFF s2 of
                                           None \<Rightarrow> None
                                         | Some (r3, s3) \<Rightarrow>
                                             if r3 \<noteq> PCA9534_OK
                                             then Some (PCA9534_FAIL, Some H, s3)
                                             else Some (PCA9534_OK, Some H, s3)))))))"

definition PCA9534_DeInit ::
  "'w PCA9534_Handler_t option \<Rightarrow> 'w bus
     \<Rightarrow> (PCA9534_Result_t \<times> 'w PCA9534_Handler_t option \<times> 'w bus) option" where
  "PCA9534_DeInit Handler s =
     (case Handler of
        None \<Rightarrow> Some (PCA9534_INVALID_PARAM, None, s)
      | Some H \<Rightarrow>
          if DeInit (Platform H) \<noteq> None then
            (case Platform_DeInit H s of
               None \<Rightarrow> None
             | Some (r, s1) \<Rightarrow>
                 Some (if sint r \<ge> 0 then PCA9534_OK else PCA9534_FAIL, Some H, s1))
          else Some (PCA9534_OK, Some H, s))"

definition PCA9534_SetDir ::
  "'w PCA9534_Handler_t \<Rightarrow> uint8_t \<Rightarrow> 'w bus
     \<Rightarrow> (PCA9534_Result_t \<times> 'w PCA9534_Handler_t \<times> 'w bus) option" where
  "PCA9534_SetDir Handler Dir s =
     (let Dir1 = (ucast (NOT (ucast Dir :: cint)) :: uint8_t) in
      case PCA9534_WriteReg Handler PCA9534_REG_CONFIGURATION Dir1 s of
        None \<Rightarrow> None
      | Some (r, s1) \<Rightarrow>
          if r \<noteq> PCA9534_OK then Some (PCA9534_FAIL, Handler, s1)
          else Some (PCA9534_OK, Handler, s1))"

definition PCA9534_SetDirOne ::
  "'w PCA9534_Handler_t \<Rightarrow> uint8_t \<Rightarrow> uint8_t \<Rightarrow> 'w bus
     \<Rightarrow> (PCA9534_Result_t \<times> 'w PCA9534_Handler_t \<times> 'w bus) option" where
  "PCA9534_SetDirOne Handler Pos Dir s =
     (if Pos > 7 then Some (PCA9534_INVALID_PARAM, Handler, s)
      else
        (case PCA9534_ReadReg Handler PCA9534_REG_CONFIGURATION 0 s of
           None \<Rightarrow> None
         | Some (r, Reg, s1) \<Rightarrow>
             if r \<noteq> PCA9534_OK then Some (PCA9534_FAIL, Handler, s1)
             else
               (let Reg1 =
                  (if Dir \<noteq> 0
                   then ucast ((ucast Reg :: cint) AND NOT (push_bit (unat Pos) (1 :: cint)))
                   else ucast ((ucast Reg :: cint) OR push_bit (unat Pos) (1 :: cint)))
                in PCA9534_SetDir Handler Reg1 s1)))"

text \<open>
  \<^verbatim>\<open>PCA9534_Read\<close> stores the byte it receives through its pointer argument \<^verbatim>\<open>Data\<close>. The
  pointer is null (\<open>Data_Null\<close>), or points to a byte object of the caller outside the
  handler (\<open>Data_Caller\<close>), or points to the one \<^verbatim>\<open>uint8_t\<close> field of the handler itself,
  \<^verbatim>\<open>&Handler->AddressI2C\<close> (\<open>Data_AddressI2C\<close>). Pointers to single bytes of the other
  handler fields depend on the layout of the struct and are not modelled. The argument
  \<open>obj\<close> is the caller's byte object before the call, whether or not \<^verbatim>\<open>Data\<close> points to it;
  the result gives the handler and that object after the call.
\<close>

datatype data_pointer = Data_Null | Data_Caller | Data_AddressI2C

definition load_Data :: "data_pointer \<Rightarrow> 'w PCA9534_Handler_t \<Rightarrow> uint8_t \<Rightarrow> uint8_t" where
  "load_Data Data Handler obj =
     (case Data of
        Data_AddressI2C \<Rightarrow> AddressI2C Handler
      | Data_Caller \<Rightarrow> obj
      | Data_Null \<Rightarrow> obj)"

definition store_Data ::
  "data_pointer \<Rightarrow> uint8_t \<Rightarrow> 'w PCA9534_Handler_t \<Rightarrow> uint8_t
     \<Rightarrow> 'w PCA9534_Handler_t \<times> uint8_t" where
  "store_Data Data b Handler obj =
     (case Data of
        Data_AddressI2C \<Rightarrow> (Handler\<lparr>AddressI2C := b\<rparr>, obj)
      | Data_Caller \<Rightarrow> (Handler, b)
      | Data_Null \<Rightarrow> (Handler, obj))"

text \<open>
  \<^verbatim>\<open>PCA9534_ReadReg\<close> passes \<^verbatim>\<open>Handler->AddressI2C\<close> to \<^verbatim>\<open>Send\<close> and to \<^verbatim>\<open>Receive\<close> by value
  before \<^verbatim>\<open>Receive\<close> writes to \<^verbatim>\<open>*Data\<close>, and reads nothing afterwards. So it is run on the
  handler as it is before the call and on the byte \<^verbatim>\<open>Data\<close> points to, and the byte it
  leaves in \<^verbatim>\<open>*Data\<close> is then stored where \<^verbatim>\<open>Data\<close> points: in the caller's object or in
  the handler's \<^verbatim>\<open>AddressI2C\<close>.
\<close>

definition PCA9534_Read ::
  "'w PCA9534_Handler_t \<Rightarrow> data_pointer \<Rightarrow> uint8_t \<Rightarrow> 'w bus
     \<Rightarrow> (PCA9534_Result_t \<times> 'w PCA9534_Handler_t \<times> uint8_t \<times> 'w bus) option" where
  "PCA9534_Read Handler Data obj s =
     (if Data = Data_Null then Some (PCA9534_INVALID_PARAM, Handler, obj, s)
      else
        (case PCA9534_ReadReg Handler PCA9534_REG_INPUT_PORT (load_Data Data Handler obj) s of
           None \<Rightarrow> None
         | Some (r, d1, s1) \<Rightarrow>
             (case store_Data Data d1 Handler obj of
                (H1, obj1) \<Rightarrow>
                  if r \<noteq> PCA9534_OK then Some (PCA9534_FAIL, H1, obj1, s1)
                  else Some (PCA9534_OK, H1, obj1, s1))))"

definition PCA9534_Write ::
  "'w PCA9534_Handler_t \<Rightarrow> uint8_t \<Rightarrow> 'w bus
     \<Rightarrow> (PCA9534_Result_t \<times> 'w PCA9534_Handler_t \<times> 'w bus) option" where
  "PCA9534_Write Handler Data s =
     (case PCA9534_WriteReg Handler PCA9534_REG_OUTPUT_PORT Data s of
        None \<Rightarrow> None
      | Some (r, s1) \<Rightarrow>
          if r \<noteq> PCA9534_OK then Some (PCA9534_FAIL, Handler, s1)
          else Some (PCA9534_OK, Handler, s1))"

definition PCA9534_WriteOne ::
  "'w PCA9534_Handler_t \<Rightarrow> uint8_t \<Rightarrow> uint8_t \<Rightarrow> 'w bus
     \<Rightarrow> (PCA9534_Result_t \<times> 'w PCA9534_Handler_t \<times> 'w bus) option" where
  "PCA9534_WriteOne Handler Pos Value s =
     (if Pos > 7 then Some (PCA9534_INVALID_PARAM, Handler, s)
      else
        (case PCA9534_ReadReg Handler PCA9534_REG_OUTPUT_PORT 0 s of
           None \<Rightarrow> None
         | Some (r, Reg, s1) \<Rightarrow>
             if r \<noteq> PCA9534_OK then Some (PCA9534_FAIL, Handler, s1)
             else
               (let Reg1 =
                  (if Value \<noteq> 0
                   then ucast ((ucast Reg :: cint) OR push_bit (unat Pos) (1 :: cint))
                   else ucast ((ucast Reg :: cint) AND NOT (push_bit (unat Pos) (1 :: cint))))
                in PCA9534_Write Handler Reg1 s1)))"

definition PCA9534_Toggle ::
  "'w PCA9534_Handler_t \<Rightarrow> uint8_t \<Rightarrow> 'w bus
     \<Rightarrow> (PCA9534_Result_t \<times> 'w PCA9534_Handler_t \<times> 'w bus) option" where
  "PCA9534_Toggle Handler Mask s =
     (case PCA9534_ReadReg Handler PCA9534_REG_OUTPUT_PORT 0 s of
        None \<Rightarrow> None
      | Some (r, Reg, s1) \<Rightarrow>
          if r \<noteq> PCA9534_OK then Some (PCA9534_FAIL, Handler, s1)
          else
            PCA9534_Write Handler (ucast ((ucast Reg :: cint) XOR (ucast Mask :: cint))) s1)"

definition PCA9534_ToggleOne ::
  "'w PCA9534_Handler_t \<Rightarrow> uint8_t \<Rightarrow> 'w bus
     \<Rightarrow> (PCA9534_Result_t \<times> 'w PCA9534_Handler_t \<times> 'w bus) option" where
  "PCA9534_ToggleOne Handler Pos s =
     (if Pos > 7 then Some (PCA9534_INVALID_PARAM, Handler, s)
      else
        (let Mask = (ucast (push_bit (unat Pos) (1 :: cint)) :: uint8_t)
         in PCA9534_Toggle Handler Mask s))"

section \<open>A simulated chip as the platform layer\<close>

text \<open>
  The chip is not part of the driver. To run the driver against a device whose registers
  only change through the driver's own transfers, the platform functions below act on a
  simulated chip: the four registers of the register map and the command byte, whose two
  low bits select the register. A send of one byte stores the command byte; a send of two
  bytes stores the command byte and writes the second byte to the selected register (the
  input port is read-only); a receive returns the selected register. Every transfer is
  acknowledged (status 0).
\<close>

record chip =
  reg_input :: uint8_t
  reg_output :: uint8_t
  reg_polarity :: uint8_t
  reg_config :: uint8_t
  command :: uint8_t

definition chip_read :: "chip \<Rightarrow> uint8_t" where
  "chip_read c =
     (if command c AND 3 = 0 then reg_input c
      else if command c AND 3 = 1 then reg_output c
      else if command c AND 3 = 2 then reg_polarity c
      else reg_config c)"

definition chip_write :: "uint8_t \<Rightarrow> chip \<Rightarrow> chip" where
  "chip_write d c =
     (if command c AND 3 = 0 then c
      else if command c AND 3 = 1 then c\<lparr>reg_output := d\<rparr>
      else if command c AND 3 = 2 then c\<lparr>reg_polarity := d\<rparr>
      else c\<lparr>reg_config := d\<rparr>)"

definition chip_Send :: "uint8_t \<Rightarrow> uint8_t list \<Rightarrow> uint8_t \<Rightarrow> chip \<Rightarrow> int8_t \<times> chip" where
  "chip_Send Address Data Len c =
     (case take (unat Len) Data of
        [] \<Rightarrow> (0, c)
      | [a] \<Rightarrow> (0, c\<lparr>command := a\<rparr>)
      | a # d # ds \<Rightarrow> (0, chip_write d (c\<lparr>command := a\<rparr>)))"

definition chip_Receive ::
  "uint8_t \<Rightarrow> uint8_t list \<Rightarrow> uint8_t \<Rightarrow> chip \<Rightarrow> int8_t \<times> uint8_t list \<times> chip" where
  "chip_Receive Address Data Len c = (0, replicate (unat Len) (chip_read c), c)"

text \<open>A bus on which no slave acknowledges: every transfer returns -3 and changes nothing.\<close>

definition nack_Send :: "uint8_t \<Rightarrow> uint8_t list \<Rightarrow> uint8_t \<Rightarrow> chip \<Rightarrow> int8_t \<times> chip" where
  "nack_Send Address Data Len c = (- 3, c)"

definition nack_Receive ::
  "uint8_t \<Rightarrow> uint8_t list \<Rightarrow> uint8_t \<Rightarrow> chip \<Rightarrow> int8_t \<times> uint8_t list \<times> chip" where
  "nack_Receive Address Data Len c = (- 3, Data, c)"

text \<open>
  A chip that acknowledges a send of the command byte alone but not a send that carries a
  data byte: reads succeed, register writes fail.
\<close>

definition readonly_Send :: "uint8_t \<Rightarrow> uint8_t list \<Rightarrow> uint8_t \<Rightarrow> chip \<Rightarrow> int8_t \<times> chip" where
  "readonly_Send Address Data Len c =
     (if unat Len \<le> 1 then chip_Send Address Data Len c else (- 1, c))"

definition chip_Platform :: "chip PCA9534_Platform_t" where
  "chip_Platform =
     \<lparr>Init = None, DeInit = None, Send = Some chip_Send, Receive = Some chip_Receive\<rparr>"

definition nack_Platform :: "chip PCA9534_Platform_t" where
  "nack_Platform =
     \<lparr>Init = None, DeInit = None, Send = Some nack_Send, Receive = Some nack_Receive\<rparr>"

definition chip_Handler :: "PCA9534_Device_t \<Rightarrow> uint8_t \<Rightarrow> chip PCA9534_Handler_t" where
  "chip_Handler d a = \<lparr>Device = d, AddressI2C = a, Platform = chip_Platform\<rparr>"

definition nack_Handler :: "PCA9534_Device_t \<Rightarrow> uint8_t \<Rightarrow> chip PCA9534_Handler_t" where
  "nack_Handler d a = \<lparr>Device = d, AddressI2C = a, Platform = nack_Platform\<rparr>"

text \<open>
  Two handlers on which only part of a transfer works: on the first every receive fails,
  on the second every register write fails.
\<close>

definition deaf_Handler :: "chip PCA9534_Handler_t" where
  "deaf_Handler =
     \<lparr>Device = 0, AddressI2C = 0x20,
      Platform = \<lparr>Init = None, DeInit = None, Send = Some chip_Send,
                  Receive = Some nack_Receive\<rparr>\<rparr>"

definition readonly_Handler :: "chip PCA9534_Handler_t" where
  "readonly_Handler =
     \<lparr>Device = 0, AddressI2C = 0x20,
      Platform = \<lparr>Init = None, DeInit = None, Send = Some readonly_Send,
                  Receive = Some chip_Receive\<rparr>\<rparr>"

text \<open>The chip after power-on reset, and a state in which no call has been made yet.\<close>

definition chip_reset :: chip where
  "chip_reset =
     \<lparr>reg_input = 0xFF, reg_output = 0xFF, reg_polarity = 0x00, reg_config = 0xFF,
      command = 0\<rparr>"

definition fresh :: "'w \<Rightarrow> 'w bus" where
  "fresh w = \<lparr>world = w, calls = []\<rparr>"

section \<open>Integer promotion and truncation\<close>

lemma ucast_or_base: "(ucast ((b :: cint) OR ucast (a :: uint8_t)) :: uint8_t) = ucast b OR a"
  by (rule bit_word_eqI) (auto simp add: bit_simps)

lemma ucast_not8: "(ucast (NOT (ucast (d :: uint8_t) :: cint)) :: uint8_t) = NOT d"
  by (rule bit_word_eqI) (auto simp add: bit_simps)

lemma ucast_bit8: "(ucast (push_bit n (1 :: cint)) :: uint8_t) = push_bit n 1"
  by (rule bit_word_eqI) (auto simp add: bit_simps)

lemma ucast_clear8:
  "(ucast ((ucast (r :: uint8_t) :: cint) AND NOT (push_bit n 1)) :: uint8_t)
     = r AND NOT (push_bit n 1)"
  by (rule bit_word_eqI) (auto simp add: bit_simps)

lemma ucast_set8:
  "(ucast ((ucast (r :: uint8_t) :: cint) OR push_bit n 1) :: uint8_t) = r OR push_bit n 1"
  by (rule bit_word_eqI) (auto simp add: bit_simps)

lemma ucast_xor8:
  "(ucast ((ucast (r :: uint8_t) :: cint) XOR ucast (m :: uint8_t)) :: uint8_t) = r XOR m"
  by (rule bit_word_eqI) (auto simp add: bit_simps)

lemma ucast_pow8: "(ucast (2 ^ n :: cint) :: uint8_t) = 2 ^ n"
  using ucast_bit8 [of n] by simp

lemma ucast_clear_pow8:
  "(ucast ((ucast (r :: uint8_t) :: cint) AND NOT (2 ^ n)) :: uint8_t) = r AND NOT (2 ^ n)"
  using ucast_clear8 [of r n] by simp

lemma ucast_set_pow8:
  "(ucast ((ucast (r :: uint8_t) :: cint) OR 2 ^ n) :: uint8_t) = r OR 2 ^ n"
  using ucast_set8 [of r n] by simp

lemmas regs = PCA9534_REG_INPUT_PORT_def PCA9534_REG_OUTPUT_PORT_def
  PCA9534_REG_POLARITY_INVERT_def PCA9534_REG_CONFIGURATION_def

lemmas devs = PCA9534_DEVICE_PCA9534_def PCA9534_DEVICE_PCA9534A_def

lemmas bases = PCA9534_I2C_ADDRESS_BASE_def PCA9534A_I2C_ADDRESS_BASE_def

lemmas sim = chip_Handler_def nack_Handler_def chip_Platform_def nack_Platform_def
  chip_Send_def chip_Receive_def nack_Send_def nack_Receive_def chip_read_def chip_write_def
  chip_reset_def fresh_def readonly_Send_def deaf_Handler_def readonly_Handler_def

section \<open>The register primitives\<close>

lemma WriteReg_eq:
  assumes "Send (Platform H) = Some f"
  shows "PCA9534_WriteReg H a d s =
    Some (if sint (fst (f (AddressI2C H) [a, d] 2 (world s))) < 0
          then PCA9534_FAIL else PCA9534_OK,
          \<lparr>world = snd (f (AddressI2C H) [a, d] 2 (world s)),
           calls = calls s @
             [Call_Send (AddressI2C H) [a, d] 2 (fst (f (AddressI2C H) [a, d] 2 (world s)))]\<rparr>)"
  using assms by (simp add: PCA9534_WriteReg_def Platform_Send_def split: prod.split)

lemma ReadReg_eq:
  assumes "Send (Platform H) = Some f" and "Receive (Platform H) = Some g"
  shows "PCA9534_ReadReg H a d0 s =
    (let p1 = f (AddressI2C H) [a] 1 (world s);
         c1 = Call_Send (AddressI2C H) [a] 1 (fst p1);
         p2 = g (AddressI2C H) [d0] 1 (snd p1);
         c2 = Call_Receive (AddressI2C H) 1 (fst (snd p2)) (fst p2);
         d1 = (case fst (snd p2) of [] \<Rightarrow> d0 | b # bs \<Rightarrow> b)
     in if sint (fst p1) < 0
        then Some (PCA9534_FAIL, d0, \<lparr>world = snd p1, calls = calls s @ [c1]\<rparr>)
        else Some (if sint (fst p2) < 0 then PCA9534_FAIL else PCA9534_OK, d1,
                   \<lparr>world = snd (snd p2), calls = calls s @ [c1, c2]\<rparr>))"
  using assms
  by (simp add: PCA9534_ReadReg_def Platform_Send_def Platform_Receive_def Let_def
      split: prod.split)

lemma Write_eq:
  assumes "Send (Platform H) = Some f"
  shows "PCA9534_Write H d s =
    Some (if sint (fst (f (AddressI2C H) [0x01, d] 2 (world s))) < 0
          then PCA9534_FAIL else PCA9534_OK,
          H,
          \<lparr>world = snd (f (AddressI2C H) [0x01, d] 2 (world s)),
           calls = calls s @
             [Call_Send (AddressI2C H) [0x01, d] 2
                (fst (f (AddressI2C H) [0x01, d] 2 (world s)))]\<rparr>)"
  by (simp add: PCA9534_Write_def WriteReg_eq [OF assms] regs)

lemma Toggle_eq:
  assumes "Send (Platform H) = Some f" and "Receive (Platform H) = Some g"
  shows "PCA9534_Toggle H Mask s =
    (let p1 = f (AddressI2C H) [0x01] 1 (world s);
         c1 = Call_Send (AddressI2C H) [0x01] 1 (fst p1);
         p2 = g (AddressI2C H) [0] 1 (snd p1);
         c2 = Call_Receive (AddressI2C H) 1 (fst (snd p2)) (fst p2);
         Reg = (case fst (snd p2) of [] \<Rightarrow> 0 | b # bs \<Rightarrow> b);
         p3 = f (AddressI2C H) [0x01, Reg XOR Mask] 2 (snd (snd p2));
         c3 = Call_Send (AddressI2C H) [0x01, Reg XOR Mask] 2 (fst p3)
     in if sint (fst p1) < 0
        then Some (PCA9534_FAIL, H, \<lparr>world = snd p1, calls = calls s @ [c1]\<rparr>)
        else if sint (fst p2) < 0
        then Some (PCA9534_FAIL, H, \<lparr>world = snd (snd p2), calls = calls s @ [c1, c2]\<rparr>)
        else Some (if sint (fst p3) < 0 then PCA9534_FAIL else PCA9534_OK, H,
                   \<lparr>world = snd p3, calls = calls s @ [c1, c2, c3]\<rparr>))"
  using assms
  by (simp add: PCA9534_Toggle_def ReadReg_eq Write_eq regs Let_def ucast_xor8)

lemma store_Data_same: "store_Data Data (load_Data Data H obj) H obj = (H, obj)"
  by (cases Data) (simp_all add: store_Data_def load_Data_def)

lemma store_Data_Caller: "Data \<noteq> Data_AddressI2C \<Longrightarrow> fst (store_Data Data b H obj) = H"
  by (cases Data) (simp_all add: store_Data_def)

lemma Read_eq:
  assumes "Send (Platform H) = Some f" and "Receive (Platform H) = Some g"
    and "Data \<noteq> Data_Null"
  shows "PCA9534_Read H Data obj s =
    (let p1 = f (AddressI2C H) [0x00] 1 (world s);
         c1 = Call_Send (AddressI2C H) [0x00] 1 (fst p1);
         p2 = g (AddressI2C H) [load_Data Data H obj] 1 (snd p1);
         c2 = Call_Receive (AddressI2C H) 1 (fst (snd p2)) (fst p2);
         d1 = (case fst (snd p2) of [] \<Rightarrow> load_Data Data H obj | b # bs \<Rightarrow> b)
     in if sint (fst p1) < 0
        then Some (PCA9534_FAIL, H, obj, \<lparr>world = snd p1, calls = calls s @ [c1]\<rparr>)
        else Some (if sint (fst p2) < 0 then PCA9534_FAIL else PCA9534_OK,
                   fst (store_Data Data d1 H obj), snd (store_Data Data d1 H obj),
                   \<lparr>world = snd (snd p2), calls = calls s @ [c1, c2]\<rparr>))"
  using assms
  by (simp add: PCA9534_Read_def ReadReg_eq regs Let_def store_Data_same split: prod.split)

lemma WriteOne_eq:
  assumes "Send (Platform H) = Some f" and "Receive (Platform H) = Some g" and "Pos \<le> 7"
  shows "PCA9534_WriteOne H Pos Value s =
    (let p1 = f (AddressI2C H) [0x01] 1 (world s);
         c1 = Call_Send (AddressI2C H) [0x01] 1 (fst p1);
         p2 = g (AddressI2C H) [0] 1 (snd p1);
         c2 = Call_Receive (AddressI2C H) 1 (fst (snd p2)) (fst p2);
         Reg = (case fst (snd p2) of [] \<Rightarrow> 0 | b # bs \<Rightarrow> b);
         Reg1 = (if Value \<noteq> 0 then Reg OR 2 ^ unat Pos else Reg AND NOT (2 ^ unat Pos));
         p3 = f (AddressI2C H) [0x01, Reg1] 2 (snd (snd p2));
         c3 = Call_Send (AddressI2C H) [0x01, Reg1] 2 (fst p3)
     in if sint (fst p1) < 0
        then Some (PCA9534_FAIL, H, \<lparr>world = snd p1, calls = calls s @ [c1]\<rparr>)
        else if sint (fst p2) < 0
        then Some (PCA9534_FAIL, H, \<lparr>world = snd (snd p2), calls = calls s @ [c1, c2]\<rparr>)
        else Some (if sint (fst p3) < 0 then PCA9534_FAIL else PCA9534_OK, H,
                   \<lparr>world = snd p3, calls = calls s @ [c1, c2, c3]\<rparr>))"
  using assms
  by (simp add: PCA9534_WriteOne_def ReadReg_eq Write_eq regs Let_def ucast_set_pow8
      ucast_clear_pow8 not_less [symmetric])

lemma SetDirOne_eq:
  assumes "Send (Platform H) = Some f" and "Receive (Platform H) = Some g" and "Pos \<le> 7"
  shows "PCA9534_SetDirOne H Pos Dir s =
    (let p1 = f (AddressI2C H) [0x03] 1 (world s);
         c1 = Call_Send (AddressI2C H) [0x03] 1 (fst p1);
         p2 = g (AddressI2C H) [0] 1 (snd p1);
         c2 = Call_Receive (AddressI2C H) 1 (fst (snd p2)) (fst p2);
         Reg = (case fst (snd p2) of [] \<Rightarrow> 0 | b # bs \<Rightarrow> b);
         Reg1 = (if Dir \<noteq> 0 then Reg AND NOT (2 ^ unat Pos) else Reg OR 2 ^ unat Pos);
         p3 = f (AddressI2C H) [0x03, NOT Reg1] 2 (snd (snd p2));
         c3 = Call_Send (AddressI2C H) [0x03, NOT Reg1] 2 (fst p3)
     in if sint (fst p1) < 0
        then Some (PCA9534_FAIL, H, \<lparr>world = snd p1, calls = calls s @ [c1]\<rparr>)
        else if sint (fst p2) < 0
        then Some (PCA9534_FAIL, H, \<lparr>world = snd (snd p2), calls = calls s @ [c1, c2]\<rparr>)
        else Some (if sint (fst p3) < 0 then PCA9534_FAIL else PCA9534_OK, H,
                   \<lparr>world = snd p3, calls = calls s @ [c1, c2, c3]\<rparr>))"
  using assms
  by (simp add: PCA9534_SetDirOne_def PCA9534_SetDir_def ReadReg_eq WriteReg_eq regs Let_def
      ucast_set_pow8 ucast_clear_pow8 ucast_not8 not_less [symmetric])

section \<open>Address resolution\<close>

text \<open>
  C2. For address pins 0..7, \<^verbatim>\<open>PCA9534_SetAddressI2C\<close> stores \<open>0x20 OR Address\<close> for the
  PCA9534 and \<open>0x38 OR Address\<close> for the PCA9534A and returns \<^verbatim>\<open>PCA9534_OK\<close>; for address
  pins above 7 it returns \<^verbatim>\<open>PCA9534_INVALID_PARAM\<close> and leaves the handler as it was. In all
  three cases the state, and with it the record of platform calls, is unchanged.
\<close>

theorem SetAddressI2C_computes:
  "(Address \<le> 7 \<and> Device H = PCA9534_DEVICE_PCA9534 \<longrightarrow>
      PCA9534_SetAddressI2C H Address s = (PCA9534_OK, H\<lparr>AddressI2C := 0x20 OR Address\<rparr>, s)) \<and>
   (Address \<le> 7 \<and> Device H = PCA9534_DEVICE_PCA9534A \<longrightarrow>
      PCA9534_SetAddressI2C H Address s = (PCA9534_OK, H\<lparr>AddressI2C := 0x38 OR Address\<rparr>, s)) \<and>
   (Address > 7 \<longrightarrow>
      PCA9534_SetAddressI2C H Address s = (PCA9534_INVALID_PARAM, H, s))"
  by (simp add: PCA9534_SetAddressI2C_def ucast_or_base bases devs not_less [symmetric])

theorem SetAddressI2C_computes_witness:
  "PCA9534_SetAddressI2C (chip_Handler 0 0) 3 (fresh chip_reset)
     = (PCA9534_OK, chip_Handler 0 0x23, fresh chip_reset) \<and>
   PCA9534_SetAddressI2C (chip_Handler 1 0) 7 (fresh chip_reset)
     = (PCA9534_OK, chip_Handler 1 0x3F, fresh chip_reset) \<and>
   PCA9534_SetAddressI2C (chip_Handler 1 0x55) 8 (fresh chip_reset)
     = (PCA9534_INVALID_PARAM, chip_Handler 1 0x55, fresh chip_reset)"
  using SetAddressI2C_computes [of 3 "chip_Handler 0 0" "fresh chip_reset"]
    SetAddressI2C_computes [of 7 "chip_Handler 1 0" "fresh chip_reset"]
    SetAddressI2C_computes [of 8 "chip_Handler 1 0x55" "fresh chip_reset"]
  by (simp add: devs chip_Handler_def)

section \<open>Initialisation\<close>

text \<open>
  C3. \<^verbatim>\<open>PCA9534_Init\<close> on a handler with \<^verbatim>\<open>Send\<close> and \<^verbatim>\<open>Receive\<close> set, a valid device tag and
  address pins 0..7, whose optional platform \<^verbatim>\<open>Init\<close> succeeds. With \<open>s0\<close> the state after
  the optional platform \<^verbatim>\<open>Init\<close>: when the three sends succeed the result is \<^verbatim>\<open>PCA9534_OK\<close>
  and the calls made after \<open>s0\<close> are exactly the three register writes
  \<open>[0x01, 0xFF]\<close>, \<open>[0x02, 0x00]\<close>, \<open>[0x03, 0xFF]\<close>, in this order, to the resolved address;
  when the first, second or third send fails the result is \<^verbatim>\<open>PCA9534_FAIL\<close>, the failing
  send is the last call, and the earlier writes stay as they were sent.
\<close>

theorem Init_resets_registers:
  assumes "Device_arg = PCA9534_DEVICE_PCA9534 \<or> Device_arg = PCA9534_DEVICE_PCA9534A"
    and "Address \<le> 7"
    and "Send (Platform H0) = Some f"
    and "Receive (Platform H0) = Some g"
    and "\<forall>i. Init (Platform H0) = Some i \<longrightarrow> 0 \<le> sint (fst (i (world s)))"
  shows
    "let H = H0\<lparr>Device := Device_arg,
                AddressI2C := (if Device_arg = PCA9534_DEVICE_PCA9534 then 0x20 else 0x38) OR Address\<rparr>;
         a = AddressI2C H;
         s0 = (case Init (Platform H0) of
                 None \<Rightarrow> s
               | Some i \<Rightarrow> \<lparr>world = snd (i (world s)),
                            calls = calls s @ [Call_Init (fst (i (world s)))]\<rparr>);
         p1 = f a [0x01, 0xFF] 2 (world s0);
         p2 = f a [0x02, 0x00] 2 (snd p1);
         p3 = f a [0x03, 0xFF] 2 (snd p2);
         c1 = Call_Send a [0x01, 0xFF] 2 (fst p1);
         c2 = Call_Send a [0x02, 0x00] 2 (fst p2);
         c3 = Call_Send a [0x03, 0xFF] 2 (fst p3)
     in
       (0 \<le> sint (fst p1) \<and> 0 \<le> sint (fst p2) \<and> 0 \<le> sint (fst p3) \<longrightarrow>
          PCA9534_Init (Some H0) Device_arg Address s =
            Some (PCA9534_OK, Some H, \<lparr>world = snd p3, calls = calls s0 @ [c1, c2, c3]\<rparr>)) \<and>
       (sint (fst p1) < 0 \<longrightarrow>
          PCA9534_Init (Some H0) Device_arg Address s =
            Some (PCA9534_FAIL, Some H, \<lparr>world = snd p1, calls = calls s0 @ [c1]\<rparr>)) \<and>
       (0 \<le> sint (fst p1) \<and> sint (fst p2) < 0 \<longrightarrow>
          PCA9534_Init (Some H0) Device_arg Address s =
            Some (PCA9534_FAIL, Some H, \<lparr>world = snd p2, calls = calls s0 @ [c1, c2]\<rparr>)) \<and>
       (0 \<le> sint (fst p1) \<and> 0 \<le> sint (fst p2) \<and> sint (fst p3) < 0 \<longrightarrow>
          PCA9534_Init (Some H0) Device_arg Address s =
            Some (PCA9534_FAIL, Some H, \<lparr>world = snd p3, calls = calls s0 @ [c1, c2, c3]\<rparr>))"
proof (cases "Init (Platform H0)")
  case None
  with assms show ?thesis
    by (auto simp add: PCA9534_Init_def PCA9534_SetAddressI2C_def WriteReg_eq ucast_or_base
        devs bases regs Let_def not_less [symmetric])
next
  case (Some i)
  with assms have "0 \<le> sint (fst (i (world s)))" by simp
  with Some assms(1-4) show ?thesis
    by (auto simp add: PCA9534_Init_def PCA9534_SetAddressI2C_def WriteReg_eq ucast_or_base
        Platform_Init_def devs bases regs Let_def not_less [symmetric] split: prod.splits)
qed

theorem Init_resets_registers_witness:
  "PCA9534_Init (Some (chip_Handler 7 0)) PCA9534_DEVICE_PCA9534 3 (fresh chip_reset) =
     Some (PCA9534_OK, Some (chip_Handler 0 0x23),
           \<lparr>world = chip_reset\<lparr>command := 3\<rparr>,
            calls = [Call_Send 0x23 [0x01, 0xFF] 2 0, Call_Send 0x23 [0x02, 0x00] 2 0,
                     Call_Send 0x23 [0x03, 0xFF] 2 0]\<rparr>) \<and>
   PCA9534_Init (Some (nack_Handler 7 0)) PCA9534_DEVICE_PCA9534A 3 (fresh chip_reset) =
     Some (PCA9534_FAIL, Some (nack_Handler 1 0x3B),
           \<lparr>world = chip_reset, calls = [Call_Send 0x3B [0x01, 0xFF] 2 (- 3)]\<rparr>) \<and>
   PCA9534_Init
      (Some \<lparr>Device = 7, AddressI2C = 0,
             Platform = \<lparr>Init = Some (\<lambda>c. (0, c)), DeInit = None,
                         Send = Some chip_Send, Receive = Some chip_Receive\<rparr>\<rparr>)
      PCA9534_DEVICE_PCA9534A 0 (fresh chip_reset) =
     Some (PCA9534_OK,
           Some \<lparr>Device = 1, AddressI2C = 0x38,
                 Platform = \<lparr>Init = Some (\<lambda>c. (0, c)), DeInit = None,
                             Send = Some chip_Send, Receive = Some chip_Receive\<rparr>\<rparr>,
           \<lparr>world = chip_reset\<lparr>command := 3\<rparr>,
            calls = [Call_Init 0, Call_Send 0x38 [0x01, 0xFF] 2 0,
                     Call_Send 0x38 [0x02, 0x00] 2 0, Call_Send 0x38 [0x03, 0xFF] 2 0]\<rparr>)"
  using Init_resets_registers [of PCA9534_DEVICE_PCA9534 3 "chip_Handler 7 0" chip_Send
      chip_Receive "fresh chip_reset"]
    Init_resets_registers [of PCA9534_DEVICE_PCA9534A 0
      "\<lparr>Device = 7, AddressI2C = 0,
        Platform = \<lparr>Init = Some (\<lambda>c. (0, c)), DeInit = None,
                    Send = Some chip_Send, Receive = Some chip_Receive\<rparr>\<rparr>"
      chip_Send chip_Receive "fresh chip_reset"]
    Init_resets_registers [of PCA9534_DEVICE_PCA9534A 3 "nack_Handler 7 0" nack_Send
      nack_Receive "fresh chip_reset"]
  by (simp add: sim devs Let_def)

section \<open>Pin direction\<close>

text \<open>
  C4. \<^verbatim>\<open>PCA9534_SetDir\<close> makes exactly one platform call, a send of the two bytes
  \<open>[0x03, NOT dirMask]\<close> to the handler's address, and returns \<^verbatim>\<open>PCA9534_FAIL\<close> when that
  send returns a negative status and \<^verbatim>\<open>PCA9534_OK\<close> otherwise.
\<close>

theorem SetDir_writes_complement:
  assumes "Send (Platform H) = Some f"
  shows "PCA9534_SetDir H dirMask s =
    Some (if sint (fst (f (AddressI2C H) [0x03, NOT dirMask] 2 (world s))) < 0
          then PCA9534_FAIL else PCA9534_OK,
          H,
          \<lparr>world = snd (f (AddressI2C H) [0x03, NOT dirMask] 2 (world s)),
           calls = calls s @
             [Call_Send (AddressI2C H) [0x03, NOT dirMask] 2
                (fst (f (AddressI2C H) [0x03, NOT dirMask] 2 (world s)))]\<rparr>)"
  by (simp add: PCA9534_SetDir_def WriteReg_eq [OF assms] ucast_not8 regs Let_def)

theorem SetDir_writes_complement_witness:
  "PCA9534_SetDir (chip_Handler 0 0x23) 0x01 (fresh chip_reset) =
     Some (PCA9534_OK, chip_Handler 0 0x23,
           \<lparr>world = chip_reset\<lparr>reg_config := 0xFE, command := 3\<rparr>,
            calls = [Call_Send 0x23 [0x03, 0xFE] 2 0]\<rparr>) \<and>
   PCA9534_SetDir (nack_Handler 0 0x23) 0x01 (fresh chip_reset) =
     Some (PCA9534_FAIL, nack_Handler 0 0x23,
           \<lparr>world = chip_reset, calls = [Call_Send 0x23 [0x03, 0xFE] 2 (- 3)]\<rparr>)"
  using SetDir_writes_complement [where H = "chip_Handler 0 0x23" and f = chip_Send
      and dirMask = "0x01" and s = "fresh chip_reset"]
    SetDir_writes_complement [where H = "nack_Handler 0 0x23" and f = nack_Send
      and dirMask = "0x01" and s = "fresh chip_reset"]
  by (simp add: sim)

section \<open>Output port\<close>

text \<open>
  C7. For a bit position 0..7, \<^verbatim>\<open>PCA9534_ToggleOne\<close> is \<^verbatim>\<open>PCA9534_Toggle\<close> with the mask
  \<open>1 << Pos\<close>: the same result, the same handler, the same platform calls with the same
  bytes and the same outside state, for every platform layer and every starting state.
\<close>

theorem ToggleOne_is_Toggle:
  "Pos \<le> 7 \<Longrightarrow> PCA9534_ToggleOne H Pos s = PCA9534_Toggle H (push_bit (unat Pos) 1) s"
  by (simp add: PCA9534_ToggleOne_def ucast_pow8 not_less [symmetric])

theorem ToggleOne_is_Toggle_witness:
  "(5 :: uint8_t) \<le> 7 \<and>
   PCA9534_ToggleOne (chip_Handler 0 0x20) 5 (fresh chip_reset) =
     PCA9534_Toggle (chip_Handler 0 0x20) 0x20 (fresh chip_reset)"
  using ToggleOne_is_Toggle [of 5 "chip_Handler 0 0x20" "fresh chip_reset"]
  by simp

text \<open>
  C5. \<^verbatim>\<open>PCA9534_WriteOne\<close> for a bit position 0..7, when the send of the register address
  and the receive succeed and the receive delivers the byte \<open>R\<close>: the calls are the send
  of \<open>[0x01]\<close>, the receive of one byte, and the send of \<open>[0x01, R1]\<close>, where \<open>R1\<close> is
  \<open>R OR (1 << Pos)\<close> for a nonzero \<open>Value\<close> and \<open>R AND NOT (1 << Pos)\<close> for \<open>Value = 0\<close>; the
  result is \<^verbatim>\<open>PCA9534_OK\<close> unless that last send fails. From \<open>R = 0x00\<close> a nonzero \<open>Value\<close>
  writes \<open>1 << Pos\<close>, and from \<open>R = 0xFF\<close> the value 0 writes \<open>0xFF AND NOT (1 << Pos)\<close>.
\<close>

theorem WriteOne_read_modify_write:
  assumes "Pos \<le> 7"
    and "Send (Platform H) = Some f"
    and "Receive (Platform H) = Some g"
    and "f (AddressI2C H) [0x01] 1 (world s) = (rs, ws)"
    and "0 \<le> sint rs"
    and "g (AddressI2C H) [0] 1 ws = (rr, [R], wr)"
    and "0 \<le> sint rr"
  shows
    "let R1 = (if Value \<noteq> 0 then R OR push_bit (unat Pos) 1
               else R AND NOT (push_bit (unat Pos) 1));
         p3 = f (AddressI2C H) [0x01, R1] 2 wr
     in PCA9534_WriteOne H Pos Value s =
          Some (if sint (fst p3) < 0 then PCA9534_FAIL else PCA9534_OK, H,
                \<lparr>world = snd p3,
                 calls = calls s @
                   [Call_Send (AddressI2C H) [0x01] 1 rs,
                    Call_Receive (AddressI2C H) 1 [R] rr,
                    Call_Send (AddressI2C H) [0x01, R1] 2 (fst p3)]\<rparr>) \<and>
        (R = 0x00 \<and> Value \<noteq> 0 \<longrightarrow> R1 = push_bit (unat Pos) 1) \<and>
        (R = 0xFF \<and> Value = 0 \<longrightarrow> R1 = 0xFF AND NOT (push_bit (unat Pos) 1))"
  using assms
  by (simp add: PCA9534_WriteOne_def ReadReg_eq Write_eq regs Let_def
      ucast_set_pow8 ucast_clear_pow8 not_less [symmetric])

theorem WriteOne_read_modify_write_witness:
  "PCA9534_WriteOne (chip_Handler 0 0x20) 3 1 (fresh (chip_reset\<lparr>reg_output := 0x00\<rparr>)) =
     Some (PCA9534_OK, chip_Handler 0 0x20,
           \<lparr>world = chip_reset\<lparr>reg_output := 0x08, command := 1\<rparr>,
            calls = [Call_Send 0x20 [0x01] 1 0, Call_Receive 0x20 1 [0x00] 0,
                     Call_Send 0x20 [0x01, 0x08] 2 0]\<rparr>) \<and>
   PCA9534_WriteOne (chip_Handler 0 0x20) 3 0 (fresh chip_reset) =
     Some (PCA9534_OK, chip_Handler 0 0x20,
           \<lparr>world = chip_reset\<lparr>reg_output := 0xF7, command := 1\<rparr>,
            calls = [Call_Send 0x20 [0x01] 1 0, Call_Receive 0x20 1 [0xFF] 0,
                     Call_Send 0x20 [0x01, 0xF7] 2 0]\<rparr>)"
  using WriteOne_read_modify_write [where Pos = 3 and H = "chip_Handler 0 0x20"
      and f = chip_Send and g = chip_Receive
      and s = "fresh (chip_reset\<lparr>reg_output := 0x00\<rparr>)"
      and rs = 0 and ws = "chip_reset\<lparr>reg_output := 0x00, command := 1\<rparr>"
      and rr = 0 and R = 0 and wr = "chip_reset\<lparr>reg_output := 0x00, command := 1\<rparr>"
      and Value = 1]
    WriteOne_read_modify_write [where Pos = 3 and H = "chip_Handler 0 0x20"
      and f = chip_Send and g = chip_Receive
      and s = "fresh chip_reset"
      and rs = 0 and ws = "chip_reset\<lparr>command := 1\<rparr>"
      and rr = 0 and R = "0xFF" and wr = "chip_reset\<lparr>command := 1\<rparr>"
      and Value = 0]
  by (simp add: sim Let_def)

text \<open>
  C6. Against the simulated chip, whose output register only changes through the driver's
  own writes, two calls of \<^verbatim>\<open>PCA9534_Toggle\<close> with the same mask both return
  \<^verbatim>\<open>PCA9534_OK\<close>; the first leaves the output register at its old value XOR the mask, the
  second restores the old value.
\<close>

theorem Toggle_twice_restores:
  assumes "Send (Platform H) = Some chip_Send"
    and "Receive (Platform H) = Some chip_Receive"
  shows "\<exists>s1 s2.
    PCA9534_Toggle H Mask s = Some (PCA9534_OK, H, s1) \<and>
    PCA9534_Toggle H Mask s1 = Some (PCA9534_OK, H, s2) \<and>
    reg_output (world s1) = reg_output (world s) XOR Mask \<and>
    reg_output (world s2) = reg_output (world s)"
  using assms
  by (simp add: Toggle_eq Let_def chip_Send_def chip_Receive_def chip_read_def chip_write_def
      xor.assoc)

theorem Toggle_twice_restores_witness:
  "\<exists>s1 s2.
    PCA9534_Toggle (chip_Handler 0 0x20) 0x5A (fresh (chip_reset\<lparr>reg_output := 0x3C\<rparr>))
      = Some (PCA9534_OK, chip_Handler 0 0x20, s1) \<and>
    PCA9534_Toggle (chip_Handler 0 0x20) 0x5A s1 = Some (PCA9534_OK, chip_Handler 0 0x20, s2) \<and>
    reg_output (world s1) = 0x66 \<and>
    reg_output (world s2) = 0x3C"
  using Toggle_twice_restores [where H = "chip_Handler 0 0x20" and Mask = "0x5A"
      and s = "fresh (chip_reset\<lparr>reg_output := 0x3C\<rparr>)"]
  by (simp add: chip_Handler_def chip_Platform_def fresh_def chip_reset_def)

section \<open>Direction of one pin\<close>

text \<open>
  C1. \<^verbatim>\<open>PCA9534_SetDirOne\<close> reads the configuration register, clears or sets bit \<open>Pos\<close> in
  the byte it read, and hands the result to \<^verbatim>\<open>PCA9534_SetDir\<close>, which writes its complement
  (lemma \<open>SetDirOne_eq\<close>). On the simulated chip after reset (configuration \<open>0xFF\<close>, all
  pins inputs), \<^verbatim>\<open>PCA9534_SetDirOne\<close> with \<open>Pos = 0\<close> and \<open>Dir = 1\<close> (output) writes \<open>0x01\<close>
  to the configuration register: bit 0 stays 1 (input) and the other seven bits are
  inverted, where a write that only changes bit 0 to output would be \<open>0xFE\<close>.
\<close>

theorem SetDirOne_writes_inverted_register:
  "PCA9534_SetDirOne (chip_Handler 0 0x20) 0 1 (fresh chip_reset) =
     Some (PCA9534_OK, chip_Handler 0 0x20,
           \<lparr>world = chip_reset\<lparr>reg_config := 0x01, command := 3\<rparr>,
            calls = [Call_Send 0x20 [0x03] 1 0, Call_Receive 0x20 1 [0xFF] 0,
                     Call_Send 0x20 [0x03, 0x01] 2 0]\<rparr>)"
proof -
  have set: "Send (Platform (chip_Handler 0 0x20)) = Some chip_Send"
    "Receive (Platform (chip_Handler 0 0x20)) = Some chip_Receive"
    by (simp_all add: chip_Handler_def chip_Platform_def)
  show ?thesis
    by (simp add: SetDirOne_eq [OF set] Let_def chip_Send_def chip_Receive_def chip_read_def
        chip_write_def fresh_def chip_reset_def)
       (simp add: chip_Handler_def)
qed

section \<open>Failures of the platform layer\<close>

text \<open>
  C8. \<^verbatim>\<open>PCA9534_Read\<close> (non-null data pointer), \<^verbatim>\<open>PCA9534_Write\<close>, \<^verbatim>\<open>PCA9534_WriteOne\<close>
  (\<open>Pos \<le> 7\<close>) and \<^verbatim>\<open>PCA9534_Toggle\<close> on a handler with \<^verbatim>\<open>Send\<close> and \<^verbatim>\<open>Receive\<close> set, step by
  step. If the first send returns a negative status the result is \<^verbatim>\<open>PCA9534_FAIL\<close> and that
  send is the only call made. If the send succeeds and the receive returns a negative
  status, the result is \<^verbatim>\<open>PCA9534_FAIL\<close> and the calls are that send and that receive: the
  write half of \<^verbatim>\<open>PCA9534_WriteOne\<close> and \<^verbatim>\<open>PCA9534_Toggle\<close> is not issued. If the read half
  succeeds and the register write returns a negative status, the result is
  \<^verbatim>\<open>PCA9534_FAIL\<close> and the write is the last call. In no case is a call repeated.
\<close>

theorem transport_failure_aborts:
  assumes "Send (Platform H) = Some f" and "Receive (Platform H) = Some g"
    and "Data \<noteq> Data_Null" and "Pos \<le> 7"
  shows
    "(let a = AddressI2C H;
          ps = f a [0x00] 1 (world s);
          cs = Call_Send a [0x00] 1 (fst ps);
          pr = g a [load_Data Data H obj] 1 (snd ps);
          cr = Call_Receive a 1 (fst (snd pr)) (fst pr);
          b = (case fst (snd pr) of [] \<Rightarrow> load_Data Data H obj | x # xs \<Rightarrow> x)
      in (sint (fst ps) < 0 \<longrightarrow>
            PCA9534_Read H Data obj s =
              Some (PCA9534_FAIL, H, obj, \<lparr>world = snd ps, calls = calls s @ [cs]\<rparr>)) \<and>
         (0 \<le> sint (fst ps) \<and> sint (fst pr) < 0 \<longrightarrow>
            PCA9534_Read H Data obj s =
              Some (PCA9534_FAIL, fst (store_Data Data b H obj), snd (store_Data Data b H obj),
                    \<lparr>world = snd (snd pr), calls = calls s @ [cs, cr]\<rparr>))) \<and>
     (let a = AddressI2C H;
          pw = f a [0x01, Byte] 2 (world s);
          cw = Call_Send a [0x01, Byte] 2 (fst pw)
      in sint (fst pw) < 0 \<longrightarrow>
           PCA9534_Write H Byte s =
             Some (PCA9534_FAIL, H, \<lparr>world = snd pw, calls = calls s @ [cw]\<rparr>)) \<and>
     (let a = AddressI2C H;
          ps = f a [0x01] 1 (world s);
          cs = Call_Send a [0x01] 1 (fst ps);
          pr = g a [0] 1 (snd ps);
          cr = Call_Receive a 1 (fst (snd pr)) (fst pr);
          Reg = (case fst (snd pr) of [] \<Rightarrow> 0 | x # xs \<Rightarrow> x);
          Reg1 = (if Value \<noteq> 0 then Reg OR push_bit (unat Pos) 1
                  else Reg AND NOT (push_bit (unat Pos) 1));
          pw = f a [0x01, Reg1] 2 (snd (snd pr));
          cw = Call_Send a [0x01, Reg1] 2 (fst pw)
      in (sint (fst ps) < 0 \<longrightarrow>
            PCA9534_WriteOne H Pos Value s =
              Some (PCA9534_FAIL, H, \<lparr>world = snd ps, calls = calls s @ [cs]\<rparr>)) \<and>
         (0 \<le> sint (fst ps) \<and> sint (fst pr) < 0 \<longrightarrow>
            PCA9534_WriteOne H Pos Value s =
              Some (PCA9534_FAIL, H, \<lparr>world = snd (snd pr), calls = calls s @ [cs, cr]\<rparr>)) \<and>
         (0 \<le> sint (fst ps) \<and> 0 \<le> sint (fst pr) \<and> sint (fst pw) < 0 \<longrightarrow>
            PCA9534_WriteOne H Pos Value s =
              Some (PCA9534_FAIL, H, \<lparr>world = snd pw, calls = calls s @ [cs, cr, cw]\<rparr>))) \<and>
     (let a = AddressI2C H;
          ps = f a [0x01] 1 (world s);
          cs = Call_Send a [0x01] 1 (fst ps);
          pr = g a [0] 1 (snd ps);
          cr = Call_Receive a 1 (fst (snd pr)) (fst pr);
          Reg = (case fst (snd pr) of [] \<Rightarrow> 0 | x # xs \<Rightarrow> x);
          pw = f a [0x01, Reg XOR Mask] 2 (snd (snd pr));
          cw = Call_Send a [0x01, Reg XOR Mask] 2 (fst pw)
      in (sint (fst ps) < 0 \<longrightarrow>
            PCA9534_Toggle H Mask s =
              Some (PCA9534_FAIL, H, \<lparr>world = snd ps, calls = calls s @ [cs]\<rparr>)) \<and>
         (0 \<le> sint (fst ps) \<and> sint (fst pr) < 0 \<longrightarrow>
            PCA9534_Toggle H Mask s =
              Some (PCA9534_FAIL, H, \<lparr>world = snd (snd pr), calls = calls s @ [cs, cr]\<rparr>)) \<and>
         (0 \<le> sint (fst ps) \<and> 0 \<le> sint (fst pr) \<and> sint (fst pw) < 0 \<longrightarrow>
            PCA9534_Toggle H Mask s =
              Some (PCA9534_FAIL, H, \<lparr>world = snd pw, calls = calls s @ [cs, cr, cw]\<rparr>)))"
  using assms by (simp add: Read_eq Write_eq WriteOne_eq Toggle_eq Let_def)

theorem transport_failure_aborts_witness:
  "PCA9534_Read (nack_Handler 0 0x20) Data_Caller 0x11 (fresh chip_reset) =
     Some (PCA9534_FAIL, nack_Handler 0 0x20, 0x11,
           \<lparr>world = chip_reset, calls = [Call_Send 0x20 [0x00] 1 (- 3)]\<rparr>) \<and>
   PCA9534_Write (nack_Handler 0 0x20) 0x55 (fresh chip_reset) =
     Some (PCA9534_FAIL, nack_Handler 0 0x20,
           \<lparr>world = chip_reset, calls = [Call_Send 0x20 [0x01, 0x55] 2 (- 3)]\<rparr>) \<and>
   PCA9534_WriteOne (nack_Handler 0 0x20) 3 0 (fresh chip_reset) =
     Some (PCA9534_FAIL, nack_Handler 0 0x20,
           \<lparr>world = chip_reset, calls = [Call_Send 0x20 [0x01] 1 (- 3)]\<rparr>) \<and>
   PCA9534_Toggle (nack_Handler 0 0x20) 0x0F (fresh chip_reset) =
     Some (PCA9534_FAIL, nack_Handler 0 0x20,
           \<lparr>world = chip_reset, calls = [Call_Send 0x20 [0x01] 1 (- 3)]\<rparr>) \<and>
   PCA9534_Read deaf_Handler Data_Caller 0x11 (fresh chip_reset) =
     Some (PCA9534_FAIL, deaf_Handler, 0x11,
           \<lparr>world = chip_reset,
            calls = [Call_Send 0x20 [0x00] 1 0, Call_Receive 0x20 1 [0x11] (- 3)]\<rparr>) \<and>
   PCA9534_WriteOne deaf_Handler 3 0 (fresh chip_reset) =
     Some (PCA9534_FAIL, deaf_Handler,
           \<lparr>world = chip_reset\<lparr>command := 1\<rparr>,
            calls = [Call_Send 0x20 [0x01] 1 0, Call_Receive 0x20 1 [0x00] (- 3)]\<rparr>) \<and>
   PCA9534_Toggle deaf_Handler 0x0F (fresh chip_reset) =
     Some (PCA9534_FAIL, deaf_Handler,
           \<lparr>world = chip_reset\<lparr>command := 1\<rparr>,
            calls = [Call_Send 0x20 [0x01] 1 0, Call_Receive 0x20 1 [0x00] (- 3)]\<rparr>) \<and>
   PCA9534_WriteOne readonly_Handler 3 0 (fresh chip_reset) =
     Some (PCA9534_FAIL, readonly_Handler,
           \<lparr>world = chip_reset\<lparr>command := 1\<rparr>,
            calls = [Call_Send 0x20 [0x01] 1 0, Call_Receive 0x20 1 [0xFF] 0,
                     Call_Send 0x20 [0x01, 0xF7] 2 (- 1)]\<rparr>) \<and>
   PCA9534_Toggle readonly_Handler 0x0F (fresh chip_reset) =
     Some (PCA9534_FAIL, readonly_Handler,
           \<lparr>world = chip_reset\<lparr>command := 1\<rparr>,
            calls = [Call_Send 0x20 [0x01] 1 0, Call_Receive 0x20 1 [0xFF] 0,
                     Call_Send 0x20 [0x01, 0xF0] 2 (- 1)]\<rparr>)"
  using transport_failure_aborts [where H = "nack_Handler 0 0x20" and f = nack_Send
      and g = nack_Receive and Data = Data_Caller and Pos = 3 and s = "fresh chip_reset"
      and obj = "0x11" and Byte = "0x55" and Value = 0 and Mask = "0x0F"]
    transport_failure_aborts [where H = deaf_Handler and f = chip_Send
      and g = nack_Receive and Data = Data_Caller and Pos = 3 and s = "fresh chip_reset"
      and obj = "0x11" and Byte = "0x55" and Value = 0 and Mask = "0x0F"]
    transport_failure_aborts [where H = readonly_Handler and f = readonly_Send
      and g = chip_Receive and Data = Data_Caller and Pos = 3 and s = "fresh chip_reset"
      and obj = "0x11" and Byte = "0x55" and Value = 0 and Mask = "0x0F"]
  by (simp add: sim Let_def load_Data_def store_Data_def)

section \<open>Parameter checks\<close>

lemma Init_invalid:
  "PCA9534_Init None Dev Address s = Some (PCA9534_INVALID_PARAM, None, s)"
  "Dev \<noteq> PCA9534_DEVICE_PCA9534 \<and> Dev \<noteq> PCA9534_DEVICE_PCA9534A \<Longrightarrow>
     PCA9534_Init (Some H) Dev Address s = Some (PCA9534_INVALID_PARAM, Some H, s)"
  "Address > 7 \<Longrightarrow> \<exists>H1. PCA9534_Init (Some H) Dev Address s = Some (PCA9534_INVALID_PARAM, H1, s)"
  "Send (Platform H) = None \<or> Receive (Platform H) = None \<Longrightarrow>
     \<exists>H1. PCA9534_Init (Some H) Dev Address s = Some (PCA9534_INVALID_PARAM, H1, s)"
  by (auto simp add: PCA9534_Init_def PCA9534_SetAddressI2C_def)

lemma Init_invalid_no_call:
  "PCA9534_Init Ho Dev Address s = Some (PCA9534_INVALID_PARAM, H1, s1) \<Longrightarrow> s1 = s"
  by (auto simp add: PCA9534_Init_def PCA9534_SetAddressI2C_def PCA9534_WriteReg_def
      split: option.splits if_splits prod.splits)

lemma DeInit_invalid_no_call:
  "PCA9534_DeInit Ho s = Some (PCA9534_INVALID_PARAM, H1, s1) \<Longrightarrow> s1 = s"
  by (auto simp add: PCA9534_DeInit_def split: option.splits if_splits prod.splits)

lemma SetAddressI2C_no_call:
  "PCA9534_SetAddressI2C H Address s = (r, H1, s1) \<Longrightarrow> s1 = s"
  by (auto simp add: PCA9534_SetAddressI2C_def split: if_splits)

lemma SetDir_result:
  "PCA9534_SetDir H Dir s = Some (r, H1, s1) \<Longrightarrow> r \<noteq> PCA9534_INVALID_PARAM \<and> H1 = H"
  by (auto simp add: PCA9534_SetDir_def Let_def split: option.splits if_splits prod.splits)

lemma Write_result:
  "PCA9534_Write H Data s = Some (r, H1, s1) \<Longrightarrow> r \<noteq> PCA9534_INVALID_PARAM \<and> H1 = H"
  by (auto simp add: PCA9534_Write_def split: option.splits if_splits prod.splits)

lemma Toggle_result:
  "PCA9534_Toggle H Mask s = Some (r, H1, s1) \<Longrightarrow> r \<noteq> PCA9534_INVALID_PARAM \<and> H1 = H"
  by (auto simp add: PCA9534_Toggle_def dest: Write_result split: option.splits if_splits prod.splits)

lemma SetDirOne_invalid_no_call:
  "PCA9534_SetDirOne H Pos Dir s = Some (PCA9534_INVALID_PARAM, H1, s1) \<Longrightarrow> s1 = s"
  by (auto simp add: PCA9534_SetDirOne_def Let_def dest: SetDir_result
      split: option.splits if_splits prod.splits)

lemma Read_invalid_no_call:
  "PCA9534_Read H Data obj s = Some (PCA9534_INVALID_PARAM, H1, d, s1) \<Longrightarrow> s1 = s"
  by (auto simp add: PCA9534_Read_def split: option.splits if_splits prod.splits)

lemma WriteOne_invalid_no_call:
  "PCA9534_WriteOne H Pos Value s = Some (PCA9534_INVALID_PARAM, H1, s1) \<Longrightarrow> s1 = s"
  by (auto simp add: PCA9534_WriteOne_def Let_def dest: Write_result
      split: option.splits if_splits prod.splits)

lemma ToggleOne_invalid_no_call:
  "PCA9534_ToggleOne H Pos s = Some (PCA9534_INVALID_PARAM, H1, s1) \<Longrightarrow> s1 = s"
  by (auto simp add: PCA9534_ToggleOne_def Let_def dest: Toggle_result split: if_splits)

text \<open>
  C9. \<^verbatim>\<open>PCA9534_Init\<close> with a null handler, an unrecognised device tag, address pins above
  7, or \<^verbatim>\<open>Send\<close> or \<^verbatim>\<open>Receive\<close> unset; \<^verbatim>\<open>PCA9534_SetDirOne\<close>, \<^verbatim>\<open>PCA9534_WriteOne\<close> and
  \<^verbatim>\<open>PCA9534_ToggleOne\<close> with \<open>Pos > 7\<close>; and \<^verbatim>\<open>PCA9534_Read\<close> with a null data pointer all
  return \<^verbatim>\<open>PCA9534_INVALID_PARAM\<close> with the state, and so the record of platform calls, as
  it was. And whenever any of the ten public functions returns \<^verbatim>\<open>PCA9534_INVALID_PARAM\<close>,
  the state is as it was; \<^verbatim>\<open>PCA9534_SetDir\<close>, \<^verbatim>\<open>PCA9534_Write\<close> and \<^verbatim>\<open>PCA9534_Toggle\<close> never
  return it.
\<close>

theorem invalid_param_before_any_call:
  "PCA9534_Init None Dev Address s = Some (PCA9534_INVALID_PARAM, None, s) \<and>
   (Dev \<noteq> PCA9534_DEVICE_PCA9534 \<and> Dev \<noteq> PCA9534_DEVICE_PCA9534A \<longrightarrow>
      PCA9534_Init (Some H) Dev Address s = Some (PCA9534_INVALID_PARAM, Some H, s)) \<and>
   (Address > 7 \<longrightarrow>
      (\<exists>H1. PCA9534_Init (Some H) Dev Address s = Some (PCA9534_INVALID_PARAM, H1, s))) \<and>
   (Send (Platform H) = None \<or> Receive (Platform H) = None \<longrightarrow>
      (\<exists>H1. PCA9534_Init (Some H) Dev Address s = Some (PCA9534_INVALID_PARAM, H1, s))) \<and>
   (Pos > 7 \<longrightarrow>
      PCA9534_SetDirOne H Pos Dir s = Some (PCA9534_INVALID_PARAM, H, s) \<and>
      PCA9534_WriteOne H Pos Value s = Some (PCA9534_INVALID_PARAM, H, s) \<and>
      PCA9534_ToggleOne H Pos s = Some (PCA9534_INVALID_PARAM, H, s)) \<and>
   PCA9534_Read H Data_Null obj s = Some (PCA9534_INVALID_PARAM, H, obj, s) \<and>
   (\<forall>H1 s1. PCA9534_Init Ho Dev Address s = Some (PCA9534_INVALID_PARAM, H1, s1) \<longrightarrow> s1 = s) \<and>
   (\<forall>H1 s1. PCA9534_DeInit Ho s = Some (PCA9534_INVALID_PARAM, H1, s1) \<longrightarrow> s1 = s) \<and>
   (\<forall>H1 s1. PCA9534_SetAddressI2C H Address s = (PCA9534_INVALID_PARAM, H1, s1) \<longrightarrow> s1 = s) \<and>
   (\<forall>H1 s1. PCA9534_SetDir H Dir s \<noteq> Some (PCA9534_INVALID_PARAM, H1, s1)) \<and>
   (\<forall>H1 s1. PCA9534_SetDirOne H Pos Dir s = Some (PCA9534_INVALID_PARAM, H1, s1) \<longrightarrow> s1 = s) \<and>
   (\<forall>H1 d s1. PCA9534_Read H Data obj s = Some (PCA9534_INVALID_PARAM, H1, d, s1) \<longrightarrow>
      s1 = s) \<and>
   (\<forall>H1 s1. PCA9534_Write H Value s \<noteq> Some (PCA9534_INVALID_PARAM, H1, s1)) \<and>
   (\<forall>H1 s1. PCA9534_WriteOne H Pos Value s = Some (PCA9534_INVALID_PARAM, H1, s1) \<longrightarrow> s1 = s) \<and>
   (\<forall>H1 s1. PCA9534_Toggle H Mask s \<noteq> Some (PCA9534_INVALID_PARAM, H1, s1)) \<and>
   (\<forall>H1 s1. PCA9534_ToggleOne H Pos s = Some (PCA9534_INVALID_PARAM, H1, s1) \<longrightarrow> s1 = s)"
proof -
  have pos: "Pos > 7 \<longrightarrow>
      PCA9534_SetDirOne H Pos Dir s = Some (PCA9534_INVALID_PARAM, H, s) \<and>
      PCA9534_WriteOne H Pos Value s = Some (PCA9534_INVALID_PARAM, H, s) \<and>
      PCA9534_ToggleOne H Pos s = Some (PCA9534_INVALID_PARAM, H, s)"
    by (simp add: PCA9534_SetDirOne_def PCA9534_WriteOne_def PCA9534_ToggleOne_def)
  have rd: "PCA9534_Read H Data_Null obj s = Some (PCA9534_INVALID_PARAM, H, obj, s)"
    by (simp add: PCA9534_Read_def)
  show ?thesis
    using pos rd
    by (auto simp add: Init_invalid
        dest: Init_invalid_no_call DeInit_invalid_no_call SetAddressI2C_no_call SetDir_result
          SetDirOne_invalid_no_call Read_invalid_no_call Write_result WriteOne_invalid_no_call
          Toggle_result ToggleOne_invalid_no_call)
qed

theorem invalid_param_before_any_call_witness:
  "PCA9534_Init None 5 9 (fresh chip_reset) = Some (PCA9534_INVALID_PARAM, None, fresh chip_reset) \<and>
   PCA9534_Init
      (Some \<lparr>Device = 0, AddressI2C = 0,
             Platform = \<lparr>Init = None, DeInit = None, Send = None, Receive = None\<rparr>\<rparr>)
      5 9 (fresh chip_reset) =
     Some (PCA9534_INVALID_PARAM,
           Some \<lparr>Device = 0, AddressI2C = 0,
                 Platform = \<lparr>Init = None, DeInit = None, Send = None, Receive = None\<rparr>\<rparr>,
           fresh chip_reset) \<and>
   PCA9534_SetDirOne
      \<lparr>Device = 0, AddressI2C = 0,
       Platform = \<lparr>Init = None, DeInit = None, Send = None, Receive = None\<rparr>\<rparr>
      8 1 (fresh chip_reset) =
     Some (PCA9534_INVALID_PARAM,
           \<lparr>Device = 0, AddressI2C = 0,
            Platform = \<lparr>Init = None, DeInit = None, Send = None, Receive = None\<rparr>\<rparr>,
           fresh chip_reset) \<and>
   PCA9534_Read
      \<lparr>Device = 0, AddressI2C = 0,
       Platform = \<lparr>Init = None, DeInit = None, Send = None, Receive = None\<rparr>\<rparr>
      Data_Null 0x11 (fresh chip_reset) =
     Some (PCA9534_INVALID_PARAM,
           \<lparr>Device = 0, AddressI2C = 0,
            Platform = \<lparr>Init = None, DeInit = None, Send = None, Receive = None\<rparr>\<rparr>,
           0x11, fresh chip_reset)"
  using invalid_param_before_any_call [where Dev = 5 and Address = 9
      and s = "fresh chip_reset"
      and H = "\<lparr>Device = 0, AddressI2C = 0,
                Platform = \<lparr>Init = None, DeInit = None, Send = None, Receive = None\<rparr>\<rparr>"
      and Pos = 8 and Dir = 1 and obj = "0x11"]
  by (simp add: devs)

section \<open>The handler is only read, except through the data pointer\<close>










end
